theory Spec2Isabelle
  imports Main
begin

section \<open>Python strings and builtins used by the cleaning script\<close>

text \<open>
  A Python \<open>str\<close> is modelled as a HOL \<open>string\<close>, one \<open>char\<close> per code point.
  The builtins below are modelled on ASCII text: \<open>str.strip\<close> removes the characters
  for which \<open>str.isspace\<close> holds (tab, line feed, vertical tab, form feed, carriage
  return, the four separators 0x1C..0x1F and the space), \<open>str.upper\<close> maps \<open>a..z\<close> to
  \<open>A..Z\<close> and leaves every other character alone. Characters beyond ASCII are
  treated as caseless symbols that are neither spaces nor digits.
\<close>

datatype exn = ValueError | AttributeError | TypeError

definition py_isspace :: "char \<Rightarrow> bool" where
  "py_isspace c = (c \<in> set [CHR 0x09, CHR 0x0A, CHR 0x0B, CHR 0x0C, CHR 0x0D,
                              CHR 0x1C, CHR 0x1D, CHR 0x1E, CHR 0x1F, CHR 0x20])"

text \<open>\<open>s.strip()\<close> and \<open>s.strip(chars)\<close>: every leading and every trailing character
  of the given class is removed.\<close>

definition strip_where :: "(char \<Rightarrow> bool) \<Rightarrow> string \<Rightarrow> string" where
  "strip_where p s = rev (dropWhile p (rev (dropWhile p s)))"

definition py_strip :: "string \<Rightarrow> string" where
  "py_strip s = strip_where py_isspace s"

definition py_strip_chars :: "string \<Rightarrow> string \<Rightarrow> string" where
  "py_strip_chars chars s = strip_where (\<lambda>c. c \<in> set chars) s"

definition upper_char :: "char \<Rightarrow> char" where
  "upper_char c =
     (case map_of (zip ''abcdefghijklmnopqrstuvwxyz'' ''ABCDEFGHIJKLMNOPQRSTUVWXYZ'') c of
        Some u \<Rightarrow> u
      | None \<Rightarrow> c)"

definition py_upper :: "string \<Rightarrow> string" where
  "py_upper s = map upper_char s"

text \<open>\<open>s.split(sep)\<close> with a one-character separator: the tokens between the
  separators, empty tokens included; the empty string gives one empty token.\<close>

fun py_split :: "char \<Rightarrow> string \<Rightarrow> string list" where
  "py_split sep [] = [[]]"
| "py_split sep (c # cs) =
     (if c = sep then [] # py_split sep cs
      else (case py_split sep cs of
              [] \<Rightarrow> [[c]]
            | t # ts \<Rightarrow> (c # t) # ts))"

subsection \<open>\<open>int(str)\<close> in base ten\<close>

text \<open>
  \<open>int\<close> accepts optional white space (the C locale's: space, tab, line feed,
  vertical tab, form feed, carriage return), an optional sign, then decimal digits in
  which single underscores may stand between digits, then optional white space.
  Anything else raises \<open>ValueError\<close>. The interpreter's optional limit on the number
  of digits is not modelled; exceeding it raises \<open>ValueError\<close> as well.
\<close>

definition c_isspace :: "char \<Rightarrow> bool" where
  "c_isspace c = (c \<in> set [CHR 0x09, CHR 0x0A, CHR 0x0B, CHR 0x0C, CHR 0x0D, CHR 0x20])"

definition is_digit :: "char \<Rightarrow> bool" where
  "is_digit c = (c \<in> set ''0123456789'')"

definition digit_val :: "char \<Rightarrow> int" where
  "digit_val c = (case map_of (zip ''0123456789'' [0, 1, 2, 3, 4, 5, 6, 7, 8, 9]) c of
                    Some d \<Rightarrow> d
                  | None \<Rightarrow> 0)"

definition is_digit_or_us :: "char \<Rightarrow> bool" where
  "is_digit_or_us c = (is_digit c \<or> c = CHR ''_'')"

fun no_double_us :: "string \<Rightarrow> bool" where
  "no_double_us (a # b # cs) = (\<not> (a = CHR ''_'' \<and> b = CHR ''_'') \<and> no_double_us (b # cs))"
| "no_double_us cs = True"

definition digits_ok :: "string \<Rightarrow> bool" where
  "digits_ok body = (body \<noteq> [] \<and> hd body \<noteq> CHR ''_'' \<and> last body \<noteq> CHR ''_''
                     \<and> no_double_us body)"

definition digits_value :: "string \<Rightarrow> int" where
  "digits_value body = foldl (\<lambda>acc c. acc * 10 + digit_val c) 0 (filter is_digit body)"

definition split_sign :: "string \<Rightarrow> int \<times> string" where
  "split_sign s = (case s of
                     [] \<Rightarrow> (1, [])
                   | c # cs \<Rightarrow> (if c = CHR ''+'' then (1, cs)
                                else if c = CHR ''-'' then (- 1, cs)
                                else (1, s)))"

definition int_literal :: "string \<Rightarrow> bool" where
  "int_literal s =
     (let t = snd (split_sign (dropWhile c_isspace s));
          body = takeWhile is_digit_or_us t;
          rest = dropWhile is_digit_or_us t
      in digits_ok body \<and> list_all c_isspace rest)"

definition py_int :: "string \<Rightarrow> exn + int" where
  "py_int s =
     (if int_literal s
      then (let (sign, t) = split_sign (dropWhile c_isspace s)
            in Inr (sign * digits_value (takeWhile is_digit_or_us t)))
      else Inl ValueError)"

section \<open>The functions of the cleaning script\<close>

subsection \<open>\<open>time_to_minutes\<close>\<close>

text \<open>
  \<open>hours, minutes = map(int, time_str.split(":"))\<close> pulls the tokens through \<open>int\<close>
  one at a time: two values are unpacked, and a third is requested to see that there is
  none. A token that \<open>int\<close> rejects raises at the moment it is pulled; too few or too
  many tokens raise \<open>ValueError\<close> from the unpacking.
\<close>

definition unpack_hours_minutes :: "string list \<Rightarrow> exn + (int \<times> int)" where
  "unpack_hours_minutes toks =
     (case toks of
        [] \<Rightarrow> Inl ValueError
      | a # r1 \<Rightarrow>
          (case py_int a of
             Inl e \<Rightarrow> Inl e
           | Inr h \<Rightarrow>
               (case r1 of
                  [] \<Rightarrow> Inl ValueError
                | b # r2 \<Rightarrow>
                    (case py_int b of
                       Inl e \<Rightarrow> Inl e
                     | Inr m \<Rightarrow>
                         (case r2 of
                            [] \<Rightarrow> Inr (h, m)
                          | c # r3 \<Rightarrow>
                              (case py_int c of
                                 Inl e \<Rightarrow> Inl e
                               | Inr x \<Rightarrow> Inl ValueError))))))"

definition time_to_minutes :: "string \<Rightarrow> exn + int option" where
  "time_to_minutes time_str =
     (if time_str = [] \<or> py_strip time_str = [] then Inr None
      else (let time_str = py_strip time_str
            in (case unpack_hours_minutes (py_split (CHR '':'') time_str) of
                  Inr (hours, minutes) \<Rightarrow> Inr (Some (hours * 60 + minutes))
                | Inl e \<Rightarrow> (if e = ValueError \<or> e = AttributeError then Inr None
                            else Inl e))))"

subsection \<open>\<open>parse_days\<close>\<close>

definition day_map :: "char \<Rightarrow> string option" where
  "day_map = map_of [(CHR ''M'', ''M''), (CHR ''T'', ''T''), (CHR ''W'', ''W''),
                     (CHR ''R'', ''R''), (CHR ''F'', ''F'')]"

text \<open>The first loop appends the code of every recognised character to \<open>days\<close>.\<close>

fun collect_days :: "string \<Rightarrow> string list \<Rightarrow> string list" where
  "collect_days [] days = days"
| "collect_days (c # cs) days =
     collect_days cs (case day_map c of Some d \<Rightarrow> days @ [d] | None \<Rightarrow> days)"

text \<open>The second loop keeps the first occurrence of each code, with the set \<open>seen\<close>.\<close>

fun unique_loop :: "string list \<Rightarrow> string set \<Rightarrow> string list \<Rightarrow> string list" where
  "unique_loop [] seen unique_days = unique_days"
| "unique_loop (d # ds) seen unique_days =
     (if d \<notin> seen then unique_loop ds (insert d seen) (unique_days @ [d])
      else unique_loop ds seen unique_days)"

definition parse_days :: "string \<Rightarrow> string list" where
  "parse_days days_str =
     (if days_str = [] then []
      else unique_loop (collect_days (py_upper days_str) []) {} [])"

subsection \<open>\<open>normalize_course_type\<close> and \<open>build_course_code\<close>\<close>

definition type_map :: "string \<Rightarrow> string option" where
  "type_map = map_of [(''LEC'', ''LEC''), (''LAB'', ''LAB''), (''LCLB'', ''LCLB''),
                      (''HYBD'', ''HYBD''), (''ONL'', ''ONL''), (''TD'', ''TD'')]"

definition normalize_course_type :: "string \<Rightarrow> string" where
  "normalize_course_type lec_lab =
     (if lec_lab = [] then []
      else (let normalized = py_upper (py_strip lec_lab)
            in (case type_map normalized of Some t \<Rightarrow> t | None \<Rightarrow> normalized)))"

definition build_course_code :: "string \<Rightarrow> string \<Rightarrow> string" where
  "build_course_code subj course_num =
     (let subj = (if subj \<noteq> [] then py_strip subj else []);
          course_num = (if course_num \<noteq> [] then py_strip course_num else [])
      in py_strip (subj @ '' '' @ course_num))"

subsection \<open>One row of \<open>clean_course_data\<close>\<close>

text \<open>
  A row of \<open>csv.DictReader\<close> is a dict from column names to cell texts; a column the
  line is too short for has the value \<open>None\<close>. It is modelled by the list of its
  items in order. The comprehension \<open>{k.strip(): v for k, v in row.items()}\<close> lets a
  later item overwrite an earlier one with the same stripped key.
\<close>

type_synonym raw_row = "(string \<times> string option) list"

definition normalized_row :: "raw_row \<Rightarrow> string \<Rightarrow> string option option" where
  "normalized_row row = map_of (rev (map (\<lambda>(k, v). (py_strip k, v)) row))"

text \<open>\<open>(normalized_row.get(key) or '')\<close>: a missing key, \<open>None\<close> and the empty text
  all give the empty text.\<close>

definition get_or_empty :: "(string \<Rightarrow> string option option) \<Rightarrow> string \<Rightarrow> string" where
  "get_or_empty m key =
     (case m key of
        None \<Rightarrow> []
      | Some None \<Rightarrow> []
      | Some (Some v) \<Rightarrow> v)"

text \<open>\<open>(normalized_row.get(key) or '').strip().strip('"')\<close>\<close>

definition field :: "raw_row \<Rightarrow> string \<Rightarrow> string" where
  "field row key = py_strip_chars [CHR 0x22] (py_strip (get_or_empty (normalized_row row) key))"

text \<open>
  \<open>try: x = int(s) if s else None\<close> \<open>except (ValueError, TypeError): x = None\<close>
\<close>

definition coerce_enrollment :: "string \<Rightarrow> exn + int option" where
  "coerce_enrollment s =
     (case (if s \<noteq> [] then (case py_int s of Inl e \<Rightarrow> Inl e | Inr n \<Rightarrow> Inr (Some n))
            else Inr None) of
        Inr v \<Rightarrow> Inr v
      | Inl e \<Rightarrow> (if e = ValueError \<or> e = TypeError then Inr None else Inl e))"

text \<open>An output record is the dict handed to \<open>json.dump\<close>: its items in insertion
  order, each value a JSON string, a JSON number or \<open>null\<close>.\<close>

datatype jval = JStr string | JInt int | JNull

type_synonym meeting = "(string \<times> jval) list"

definition json_opt_int :: "int option \<Rightarrow> jval" where
  "json_opt_int v = (case v of None \<Rightarrow> JNull | Some n \<Rightarrow> JInt n)"

definition make_record ::
  "string \<Rightarrow> string \<Rightarrow> string \<Rightarrow> string \<Rightarrow> string \<Rightarrow> string \<Rightarrow> string
     \<Rightarrow> int \<Rightarrow> int \<Rightarrow> int option \<Rightarrow> int option \<Rightarrow> meeting" where
  "make_record course_code title sec course_type bldg room day
               start_minutes end_minutes max_enrollment current_enrollment =
     [(''course'', JStr course_code),
      (''title'', JStr title),
      (''section'', JStr sec),
      (''type'', JStr course_type),
      (''building'', JStr bldg),
      (''room'', JStr room),
      (''day'', JStr day),
      (''start_minutes'', JInt start_minutes),
      (''end_minutes'', JInt end_minutes),
      (''max_enrollment'', json_opt_int max_enrollment),
      (''current_enrollment'', json_opt_int current_enrollment)]"

text \<open>
  The body of the loop over the rows: the result is the list of records the row appends
  to \<open>cleaned_records\<close> (empty where the source says \<open>continue\<close>), or the exception
  that leaves the loop.
\<close>

definition process_row :: "raw_row \<Rightarrow> exn + meeting list" where
  "process_row row =
     (let subj = field row ''Subj'';
          course_num = field row ''#'';
          title = field row ''Title'';
          sec = field row ''Sec'';
          lec_lab = field row ''Lec Lab'';
          start_time = field row ''Start Time'';
          end_time = field row ''End Time'';
          days = field row ''Days'';
          bldg = field row ''Bldg'';
          room = field row ''Room'';
          max_enrollment_str = field row ''Max Enrollment'';
          current_enrollment_str = field row ''Current Enrollment''
      in (case coerce_enrollment max_enrollment_str of
            Inl e \<Rightarrow> Inl e
          | Inr max_enrollment \<Rightarrow>
      (case coerce_enrollment current_enrollment_str of
            Inl e \<Rightarrow> Inl e
          | Inr current_enrollment \<Rightarrow>
       if py_upper start_time = ''TBA'' \<or> py_upper end_time = ''TBA''
          \<or> start_time = [] \<or> end_time = [] then Inr []
       else if py_upper bldg = ''ONLINE'' \<or> bldg = [] \<or> py_strip bldg = [] then Inr []
       else if py_upper room = ''SEE NOTES'' then Inr []
       else (case time_to_minutes start_time of
               Inl e \<Rightarrow> Inl e
             | Inr start_minutes \<Rightarrow>
            (case time_to_minutes end_time of
               Inl e \<Rightarrow> Inl e
             | Inr end_minutes \<Rightarrow>
            (case (start_minutes, end_minutes) of
               (Some sm, Some em) \<Rightarrow>
                 (let day_list = parse_days days
                  in if day_list = [] then Inr []
                     else (let course_code = build_course_code subj course_num;
                               course_type = normalize_course_type lec_lab
                           in Inr (map (\<lambda>day. make_record course_code title sec course_type
                                                 bldg room day sm em
                                                 max_enrollment current_enrollment)
                                       day_list)))
             | _ \<Rightarrow> Inr []))))))"

subsection \<open>The loop over the rows\<close>

fun clean_rows :: "raw_row list \<Rightarrow> meeting list \<Rightarrow> exn + meeting list" where
  "clean_rows [] cleaned_records = Inr cleaned_records"
| "clean_rows (row # rows) cleaned_records =
     (case process_row row of
        Inl e \<Rightarrow> Inl e
      | Inr recs \<Rightarrow> clean_rows rows (cleaned_records @ recs))"

definition clean_course_data :: "raw_row list \<Rightarrow> exn + meeting list" where
  "clean_course_data rows = clean_rows rows []"

section \<open>The Row Filter\<close>

text \<open>
  The conditions under which the loop body says \<open>continue\<close>, collected from the code:
  the textual tests on the times, the building and the room, then the two results of
  \<open>time_to_minutes\<close>, then the result of \<open>parse_days\<close>.
\<close>

definition row_excluded :: "raw_row \<Rightarrow> bool" where
  "row_excluded row =
     (let start_time = field row ''Start Time'';
          end_time = field row ''End Time'';
          days = field row ''Days'';
          bldg = field row ''Bldg'';
          room = field row ''Room''
      in py_upper start_time = ''TBA'' \<or> py_upper end_time = ''TBA''
         \<or> start_time = [] \<or> end_time = []
         \<or> py_upper bldg = ''ONLINE'' \<or> bldg = [] \<or> py_strip bldg = []
         \<or> py_upper room = ''SEE NOTES''
         \<or> time_to_minutes start_time = Inr None \<or> time_to_minutes end_time = Inr None
         \<or> parse_days days = [])"


text \<open>The values a row hands to its records, and the record of a row for one day.\<close>

definition minutes_value :: "string \<Rightarrow> int" where
  "minutes_value s = (case time_to_minutes s of Inr (Some n) \<Rightarrow> n | _ \<Rightarrow> 0)"

definition enrollment_value :: "string \<Rightarrow> int option" where
  "enrollment_value s = (case coerce_enrollment s of Inr v \<Rightarrow> v | Inl e \<Rightarrow> None)"

definition row_record :: "raw_row \<Rightarrow> string \<Rightarrow> meeting" where
  "row_record row day =
     make_record (build_course_code (field row ''Subj'') (field row ''#''))
       (field row ''Title'') (field row ''Sec'')
       (normalize_course_type (field row ''Lec Lab''))
       (field row ''Bldg'') (field row ''Room'') day
       (minutes_value (field row ''Start Time'')) (minutes_value (field row ''End Time''))
       (enrollment_value (field row ''Max Enrollment''))
       (enrollment_value (field row ''Current Enrollment''))"

definition row_records :: "raw_row \<Rightarrow> meeting list" where
  "row_records row = (case process_row row of Inr recs \<Rightarrow> recs | Inl e \<Rightarrow> [])"

section \<open>Notions used to state the properties\<close>

text \<open>The recognised weekday letters: the keys of \<open>day_map\<close>.\<close>

definition is_day :: "char \<Rightarrow> bool" where
  "is_day c = (c \<in> set ''MTWRF'')"

text \<open>The first occurrences of the elements of a list, in order, and the position at
  which an element first occurs (the length of the list when it does not occur).\<close>

primrec first_occ :: "'a list \<Rightarrow> 'a list" where
  "first_occ [] = []"
| "first_occ (x # xs) = x # filter (\<lambda>y. y \<noteq> x) (first_occ xs)"


text \<open>The zero-padded time string \<open>HH:MM\<close> of an hour and a minute below 100.\<close>

definition digit_char :: "nat \<Rightarrow> char" where
  "digit_char d = ''0123456789'' ! d"

definition two_digits :: "nat \<Rightarrow> string" where
  "two_digits n = [digit_char (n div 10), digit_char (n mod 10)]"

definition hhmm :: "nat \<Rightarrow> nat \<Rightarrow> string" where
  "hhmm h m = two_digits h @ '':'' @ two_digits m"


text \<open>The field names of a record as section 3 of the specification writes them.\<close>

definition spec_field_names :: "string list" where
  "spec_field_names = [''course'', ''title'', ''section'', ''type'', ''building'', ''room'',
                       ''day'', ''startMinutes'', ''endMinutes'', ''maxEnrollment'',
                       ''currentEnrollment'']"

text \<open>A sample row with all twelve columns; the start time, the day pattern, the
  building and the title are left open.\<close>

definition sample_row :: "string \<Rightarrow> string \<Rightarrow> string \<Rightarrow> string \<Rightarrow> raw_row" where
  "sample_row start_time days bldg title =
     [(''Subj'', Some ''ALE''), (''#'', Some ''2170''), (''Title'', Some title),
      (''Sec'', Some ''001''), (''Lec Lab'', Some ''lec''),
      (''Start Time'', Some start_time), (''End Time'', Some ''09:50''),
      (''Days'', Some days), (''Bldg'', Some bldg), (''Room'', Some ''101''),
      (''Max Enrollment'', Some ''30''), (''Current Enrollment'', Some ''n/a'')]"

text \<open>A row that has only four of the twelve columns, one of them under a padded
  header.\<close>

definition short_row :: raw_row where
  "short_row = [(''Start Time'', Some ''09:00''), ('' End Time '', Some ''09:50''),
                (''Days'', Some ''MW''), (''Bldg'', Some ''SCI'')]"

text \<open>Both minute fields of a record are integers from 0 to 1439.\<close>

definition minutes_in_day :: "meeting \<Rightarrow> bool" where
  "minutes_in_day r =
     (case (map_of r ''start_minutes'', map_of r ''end_minutes'') of
        (Some (JInt a), Some (JInt b)) \<Rightarrow> 0 \<le> a \<and> a \<le> 1439 \<and> 0 \<le> b \<and> b \<le> 1439
      | _ \<Rightarrow> False)"

section \<open>Exceptions never leave the row\<close>

lemma py_int_raises: "py_int s = Inl e \<Longrightarrow> e = ValueError"
  by (auto simp: py_int_def Let_def split: if_splits prod.splits)

lemma unpack_raises: "unpack_hours_minutes toks = Inl e \<Longrightarrow> e = ValueError"
  by (auto simp: unpack_hours_minutes_def split: list.splits sum.splits dest: py_int_raises)

lemma time_to_minutes_total: "\<exists>v. time_to_minutes s = Inr v"
proof (cases "unpack_hours_minutes (py_split (CHR '':'') (py_strip s))")
  case (Inl e)
  then have "e = ValueError" by (rule unpack_raises)
  with Inl show ?thesis by (simp add: time_to_minutes_def)
next
  case (Inr hm)
  then show ?thesis by (cases hm) (simp add: time_to_minutes_def)
qed

lemma coerce_enrollment_total: "\<exists>v. coerce_enrollment s = Inr v"
  by (auto simp: coerce_enrollment_def split: sum.splits dest: py_int_raises)

lemma coerce_enrollment_value: "coerce_enrollment s = Inr (enrollment_value s)"
  using coerce_enrollment_total [of s] by (auto simp: enrollment_value_def)

lemma process_row_eq:
  "process_row row =
     Inr (if row_excluded row then []
          else map (row_record row) (parse_days (field row ''Days'')))"
proof -
  obtain a where a: "time_to_minutes (field row ''Start Time'') = Inr a"
    using time_to_minutes_total by blast
  obtain b where b: "time_to_minutes (field row ''End Time'') = Inr b"
    using time_to_minutes_total by blast
  have a': "a \<noteq> None \<Longrightarrow> a = Some (minutes_value (field row ''Start Time''))"
    using a by (auto simp: minutes_value_def)
  have b': "b \<noteq> None \<Longrightarrow> b = Some (minutes_value (field row ''End Time''))"
    using b by (auto simp: minutes_value_def)
  show ?thesis
    unfolding process_row_def row_excluded_def row_record_def Let_def
      coerce_enrollment_value a b
    using a' b' by (cases a; cases b) auto
qed

lemma row_records_eq:
  "row_records row =
     (if row_excluded row then [] else map (row_record row) (parse_days (field row ''Days'')))"
  by (simp add: row_records_def process_row_eq)

lemma clean_rows_eq: "clean_rows rows acc = Inr (acc @ concat (map row_records rows))"
  by (induction rows arbitrary: acc) (simp_all add: process_row_eq row_records_eq)

lemma process_row_cong:
  "(\<And>key. field r1 key = field r2 key) \<Longrightarrow> process_row r1 = process_row r2"
  by (simp add: process_row_def)

section \<open>The Day Expander\<close>


lemma distinct_first_occ: "distinct (first_occ xs)"
  by (induction xs) auto


lemma unique_loop_eq:
  "unique_loop ds seen acc = acc @ filter (\<lambda>d. d \<notin> seen) (first_occ ds)"
proof (induction ds arbitrary: seen acc)
  case Nil
  show ?case by simp
next
  case (Cons d ds)
  show ?case
  proof (cases "d \<in> seen")
    case True
    then have "filter (\<lambda>y. y \<notin> seen) (filter (\<lambda>y. y \<noteq> d) (first_occ ds))
               = filter (\<lambda>y. y \<notin> seen) (first_occ ds)"
      by (auto intro: filter_cong)
    with True show ?thesis by (simp add: Cons.IH)
  next
    case False
    have "filter (\<lambda>y. y \<notin> insert d seen) (first_occ ds)
          = filter (\<lambda>y. y \<notin> seen) (filter (\<lambda>y. y \<noteq> d) (first_occ ds))"
      by (auto intro: filter_cong)
    with False show ?thesis by (simp add: Cons.IH)
  qed
qed

lemma day_map_eq: "day_map c = (if is_day c then Some [c] else None)"
  by (simp add: day_map_def is_day_def)

lemma collect_days_eq: "collect_days cs days = days @ map (\<lambda>c. [c]) (filter is_day cs)"
  by (induction cs arbitrary: days) (simp_all add: day_map_eq)

lemma parse_days_eq:
  "parse_days s = first_occ (map (\<lambda>c. [c]) (filter is_day (py_upper s)))"
  by (simp add: parse_days_def unique_loop_eq collect_days_eq py_upper_def)

lemma distinct_parse_days: "distinct (parse_days s)"
  by (simp add: parse_days_eq distinct_first_occ)

section \<open>The Time Encoder\<close>

lemma is_digit_digit_char: "d < 10 \<Longrightarrow> is_digit (digit_char d)"
  unfolding is_digit_def digit_char_def by (rule nth_mem) simp

lemma digit_val_digit_char: "d < 10 \<Longrightarrow> digit_val (digit_char d) = int d"
proof -
  assume "d < 10"
  then have "d = 0 \<or> d = 1 \<or> d = 2 \<or> d = 3 \<or> d = 4 \<or> d = 5 \<or> d = 6 \<or> d = 7
             \<or> d = 8 \<or> d = 9"
    by arith
  then show ?thesis
    by (elim disjE) (simp_all add: digit_val_def digit_char_def)
qed

lemma is_digit_facts:
  assumes "is_digit c"
  shows "c \<noteq> CHR '':''" "c \<noteq> CHR ''_''" "c \<noteq> CHR ''+''" "c \<noteq> CHR ''-''"
    "\<not> c_isspace c" "\<not> py_isspace c"
  using assms by (auto simp: is_digit_def c_isspace_def py_isspace_def)

lemma py_int_two_digits:
  assumes "is_digit a" "is_digit b"
  shows "py_int [a, b] = Inr (digit_val a * 10 + digit_val b)"
  using assms is_digit_facts [OF assms(1)] is_digit_facts [OF assms(2)]
  by (simp add: py_int_def int_literal_def split_sign_def is_digit_or_us_def digits_ok_def
        digits_value_def)

lemma strip_where_id:
  "s \<noteq> [] \<Longrightarrow> \<not> p (hd s) \<Longrightarrow> \<not> p (last s) \<Longrightarrow> strip_where p s = s"
proof -
  assume a: "s \<noteq> []" "\<not> p (hd s)" "\<not> p (last s)"
  have dw: "dropWhile p xs = xs" if "xs \<noteq> []" "\<not> p (hd xs)" for xs
    using that by (cases xs) simp_all
  have "dropWhile p (rev s) = rev s"
    using a by (intro dw) (simp_all add: hd_rev)
  then show ?thesis
    using a by (simp add: strip_where_def dw)
qed

lemma time_to_minutes_digits:
  assumes "is_digit a" "is_digit b" "is_digit c" "is_digit d"
  shows "time_to_minutes [a, b, CHR '':'', c, d]
         = Inr (Some ((digit_val a * 10 + digit_val b) * 60
                      + (digit_val c * 10 + digit_val d)))"
proof -
  have s: "py_strip [a, b, CHR '':'', c, d] = [a, b, CHR '':'', c, d]"
    unfolding py_strip_def
    using is_digit_facts(6) [OF assms(1)] is_digit_facts(6) [OF assms(4)]
    by (intro strip_where_id) simp_all
  have sp: "py_split (CHR '':'') [a, b, CHR '':'', c, d] = [[a, b], [c, d]]"
    using assms [THEN is_digit_facts(1)] by simp
  have u: "unpack_hours_minutes [[a, b], [c, d]]
           = Inr (digit_val a * 10 + digit_val b, digit_val c * 10 + digit_val d)"
    by (simp add: unpack_hours_minutes_def py_int_two_digits assms)
  show ?thesis
    unfolding time_to_minutes_def Let_def s sp u by simp
qed

lemma time_to_minutes_hhmm:
  assumes "h < 100" "m < 100"
  shows "time_to_minutes (hhmm h m) = Inr (Some (int h * 60 + int m))"
proof -
  have d: "h div 10 < 10" "h mod 10 < 10" "m div 10 < 10" "m mod 10 < 10"
    using assms by auto
  have "int (h div 10) * 10 + int (h mod 10) = int h"
    "int (m div 10) * 10 + int (m mod 10) = int m"
    by presburger+
  then show ?thesis
    by (simp add: hhmm_def two_digits_def time_to_minutes_digits is_digit_digit_char
          digit_val_digit_char d)
qed

section \<open>Rows and records\<close>

lemma get_or_empty_insert:
  assumes "normalized_row (xs @ ys) (py_strip key) = None" "v = None \<or> v = Some []"
  shows "get_or_empty (normalized_row (xs @ (key, v) # ys)) k
         = get_or_empty (normalized_row (xs @ ys)) k"
  using assms
  by (auto simp: normalized_row_def get_or_empty_def map_add_def split: option.splits)

lemma process_row_insert:
  assumes "normalized_row (xs @ ys) (py_strip key) = None" "v = None \<or> v = Some []"
  shows "process_row (xs @ (key, v) # ys) = process_row (xs @ ys)"
  by (rule process_row_cong) (simp add: field_def get_or_empty_insert [OF assms])

lemma map_of_row_record_day: "map_of (row_record row d) ''day'' = Some (JStr d)"
  by (simp add: row_record_def make_record_def)

lemma map_of_row_record_other:
  "key \<noteq> ''day'' \<Longrightarrow> map_of (row_record row d) key = map_of (row_record row d') key"
  by (simp add: row_record_def make_record_def)

lemma length_row_records:
  "length (row_records row)
   = (if row_excluded row then 0 else card (set (parse_days (field row ''Days''))))"
  by (simp add: row_records_eq distinct_card distinct_parse_days)

lemma length_concat_row_records:
  "length (concat (map row_records rows))
   = sum_list (map (\<lambda>r. card (set (parse_days (field r ''Days''))))
       (filter (\<lambda>r. \<not> row_excluded r) rows))"
  by (induction rows) (simp_all add: length_row_records)




lemma minutes_value_hhmm:
  "h < 24 \<Longrightarrow> m < 60 \<Longrightarrow> minutes_value (hhmm h m) = int h * 60 + int m"
  by (simp add: minutes_value_def time_to_minutes_hhmm)

lemma map_of_row_record_minutes:
  "map_of (row_record row d) ''start_minutes''
     = Some (JInt (minutes_value (field row ''Start Time'')))"
  "map_of (row_record row d) ''end_minutes''
     = Some (JInt (minutes_value (field row ''End Time'')))"
  by (simp_all add: row_record_def make_record_def)

section \<open>Stripping\<close>










section \<open>The claims\<close>

text \<open>
  Claim C2. \<open>time_to_minutes\<close> applied to a string \<open>HH:MM\<close>, with \<open>HH\<close> a zero-padded
  hour from 00 to 23 and \<open>MM\<close> a zero-padded minute from 00 to 59, returns
  \<open>HH * 60 + MM\<close>: 870 for \<open>14:30\<close>, 0 for \<open>00:00\<close>, 1439 for \<open>23:59\<close>. Applied to the
  empty string, \<open>TBA\<close>, \<open>14\<close>, \<open>14:\<close> and \<open>ab:cd\<close> it returns \<open>None\<close> and raises
  nothing.
\<close>

theorem time_to_minutes_spec:
  "(\<forall>h m. h < 24 \<longrightarrow> m < 60 \<longrightarrow>
       time_to_minutes (hhmm h m) = Inr (Some (int h * 60 + int m)))
   \<and> hhmm 14 30 = ''14:30'' \<and> time_to_minutes ''14:30'' = Inr (Some 870)
   \<and> hhmm 0 0 = ''00:00'' \<and> time_to_minutes ''00:00'' = Inr (Some 0)
   \<and> hhmm 23 59 = ''23:59'' \<and> time_to_minutes ''23:59'' = Inr (Some 1439)
   \<and> time_to_minutes '''' = Inr None
   \<and> time_to_minutes ''TBA'' = Inr None
   \<and> time_to_minutes ''14'' = Inr None
   \<and> time_to_minutes ''14:'' = Inr None
   \<and> time_to_minutes ''ab:cd'' = Inr None"
proof -
  have g: "\<forall>h m. h < 24 \<longrightarrow> m < 60 \<longrightarrow>
             time_to_minutes (hhmm h m) = Inr (Some (int h * 60 + int m))"
    by (simp add: time_to_minutes_hhmm)
  have s: "hhmm 14 30 = ''14:30''" "hhmm 0 0 = ''00:00''" "hhmm 23 59 = ''23:59''"
    by (simp_all add: hhmm_def two_digits_def digit_char_def)
  have e: "time_to_minutes ''14:30'' = Inr (Some 870)"
    "time_to_minutes ''00:00'' = Inr (Some 0)"
    "time_to_minutes ''23:59'' = Inr (Some 1439)"
    using time_to_minutes_hhmm [of 14 30] time_to_minutes_hhmm [of 0 0]
      time_to_minutes_hhmm [of 23 59] by (simp_all add: s)
  have n: "time_to_minutes '''' = Inr None" "time_to_minutes ''TBA'' = Inr None"
    "time_to_minutes ''14'' = Inr None" "time_to_minutes ''14:'' = Inr None"
    "time_to_minutes ''ab:cd'' = Inr None"
    by code_simp+
  from g s e n show ?thesis by blast
qed

theorem time_to_minutes_spec_witness:
  "(9::nat) < 24 \<and> (5::nat) < 60 \<and> hhmm 9 5 = ''09:05''
   \<and> time_to_minutes ''09:05'' = Inr (Some 545)"
proof -
  have s: "hhmm 9 5 = ''09:05''"
    by (simp add: hhmm_def two_digits_def digit_char_def)
  have "time_to_minutes (hhmm 9 5) = Inr (Some (int 9 * 60 + int 5))"
    using time_to_minutes_spec by simp
  then show ?thesis by (simp add: s)
qed



text \<open>
  Claim C4. A row whose day pattern is \<open>M W F\<close> and that the Row Filter lets pass gives
  exactly three records, for \<open>M\<close>, \<open>W\<close> and \<open>F\<close> in this order, which agree on every
  field but \<open>day\<close>. In general the records of a row are those of its days in the order
  of \<open>parse_days\<close>, and the output is the concatenation of the records of the rows in
  the order of the rows.
\<close>

theorem emission_order:
  "(field row ''Days'' = ''M W F'' \<longrightarrow> \<not> row_excluded row \<longrightarrow>
      process_row row = Inr [row_record row ''M'', row_record row ''W'', row_record row ''F''])
   \<and> (\<forall>d. map_of (row_record row d) ''day'' = Some (JStr d))
   \<and> (\<forall>d d' key. key \<noteq> ''day'' \<longrightarrow>
         map_of (row_record row d) key = map_of (row_record row d') key)
   \<and> row_records row =
       (if row_excluded row then []
        else map (row_record row) (parse_days (field row ''Days'')))
   \<and> clean_course_data rows = Inr (concat (map row_records rows))"
proof -
  have mwf: "parse_days ''M W F'' = [''M'', ''W'', ''F'']" by code_simp
  have a: "field row ''Days'' = ''M W F'' \<longrightarrow> \<not> row_excluded row \<longrightarrow>
      process_row row = Inr [row_record row ''M'', row_record row ''W'', row_record row ''F'']"
    by (simp add: process_row_eq mwf)
  have b: "\<forall>d. map_of (row_record row d) ''day'' = Some (JStr d)"
    by (simp add: map_of_row_record_day)
  have c: "\<forall>d d' key. key \<noteq> ''day'' \<longrightarrow>
         map_of (row_record row d) key = map_of (row_record row d') key"
    using map_of_row_record_other by blast
  have d: "clean_course_data rows = Inr (concat (map row_records rows))"
    by (simp add: clean_course_data_def clean_rows_eq)
  from a b c d row_records_eq [of row] show ?thesis by blast
qed

theorem emission_order_witness:
  "field (sample_row ''09:00'' ''M W F'' ''SCI'' ''Intro'') ''Days'' = ''M W F''
   \<and> row_excluded (sample_row ''09:00'' ''M W F'' ''SCI'' ''Intro'') = False
   \<and> process_row (sample_row ''09:00'' ''M W F'' ''SCI'' ''Intro'') =
       Inr [row_record (sample_row ''09:00'' ''M W F'' ''SCI'' ''Intro'') ''M'',
            row_record (sample_row ''09:00'' ''M W F'' ''SCI'' ''Intro'') ''W'',
            row_record (sample_row ''09:00'' ''M W F'' ''SCI'' ''Intro'') ''F'']
   \<and> ''room'' \<noteq> ''day''
   \<and> map_of (row_record (sample_row ''09:00'' ''M W F'' ''SCI'' ''Intro'') ''M'') ''room''
       = map_of (row_record (sample_row ''09:00'' ''M W F'' ''SCI'' ''Intro'') ''F'') ''room''
   \<and> map_of (row_record (sample_row ''09:00'' ''M W F'' ''SCI'' ''Intro'') ''M'') ''room''
       = Some (JStr ''101'')"
proof -
  let ?row = "sample_row ''09:00'' ''M W F'' ''SCI'' ''Intro''"
  have a: "field ?row ''Days'' = ''M W F''"
    by code_simp
  have b: "\<not> row_excluded ?row"
    by code_simp
  have c: "''room'' \<noteq> ''day''" by simp
  have d: "map_of (row_record ?row ''M'') ''room'' = Some (JStr ''101'')" by code_simp
  note eo = emission_order [of ?row]
  have f: "map_of (row_record ?row ''M'') ''room'' = map_of (row_record ?row ''F'') ''room''"
    by (rule eo [THEN conjunct2, THEN conjunct2, THEN conjunct1, rule_format]) (rule c)
  have g: "process_row ?row
           = Inr [row_record ?row ''M'', row_record ?row ''W'', row_record ?row ''F'']"
    by (rule eo [THEN conjunct1, rule_format, OF a b])
  from a b c d f g show ?thesis by simp
qed

text \<open>
  Claim C5. The number of emitted records is the sum, over the rows that the Row Filter
  does not exclude, of the number of distinct weekday codes of the row's day pattern.
\<close>

theorem record_count:
  "\<exists>out. clean_course_data rows = Inr out
         \<and> length out = sum_list (map (\<lambda>r. card (set (parse_days (field r ''Days''))))
                           (filter (\<lambda>r. \<not> row_excluded r) rows))"
  by (simp add: clean_course_data_def clean_rows_eq length_concat_row_records)

theorem record_count_witness:
  "\<exists>out. clean_course_data [sample_row ''09:00'' ''M W F'' ''SCI'' ''Intro'',
                              sample_row ''TBA'' ''M W F'' ''SCI'' ''Intro'',
                              sample_row ''13:00'' ''TRT'' ''SCI'' ''Intro''] = Inr out
         \<and> length out = 5"
proof -
  have f: "parse_days (field (sample_row ''09:00'' ''M W F'' ''SCI'' ''Intro'') ''Days'')
           = [''M'', ''W'', ''F'']"
    "parse_days (field (sample_row ''13:00'' ''TRT'' ''SCI'' ''Intro'') ''Days'') = [''T'', ''R'']"
    by code_simp+
  have e: "\<not> row_excluded (sample_row ''09:00'' ''M W F'' ''SCI'' ''Intro'')"
    "row_excluded (sample_row ''TBA'' ''M W F'' ''SCI'' ''Intro'')"
    "\<not> row_excluded (sample_row ''13:00'' ''TRT'' ''SCI'' ''Intro'')"
    by code_simp+
  show ?thesis
    using record_count [of "[sample_row ''09:00'' ''M W F'' ''SCI'' ''Intro'',
                              sample_row ''TBA'' ''M W F'' ''SCI'' ''Intro'',
                              sample_row ''13:00'' ''TRT'' ''SCI'' ''Intro'']"]
    by (simp add: f e eval_nat_numeral)
qed



text \<open>
  Claim C10. The body of the loop is total on rows whose keys are strings and whose values
  are strings or \<open>None\<close>: for every such row it returns a list of records (empty when
  the row is skipped) and never an exception, and so does the whole loop. A column that
  is missing behaves like a column holding \<open>None\<close> or the empty string: putting such an
  item anywhere into a row that lacks the column leaves the result unchanged.
\<close>

theorem process_row_total:
  "(\<exists>recs. process_row row = Inr recs)
   \<and> (\<exists>out. clean_course_data rows = Inr out)
   \<and> (normalized_row (xs @ ys) (py_strip key) = None \<longrightarrow>
        process_row (xs @ (key, None) # ys) = process_row (xs @ ys)
        \<and> process_row (xs @ (key, Some []) # ys) = process_row (xs @ ys))"
proof -
  have a: "\<exists>recs. process_row row = Inr recs"
    by (simp add: process_row_eq)
  have b: "\<exists>out. clean_course_data rows = Inr out"
    by (simp add: clean_course_data_def clean_rows_eq)
  have c: "normalized_row (xs @ ys) (py_strip key) = None \<longrightarrow>
        process_row (xs @ (key, None) # ys) = process_row (xs @ ys)
        \<and> process_row (xs @ (key, Some []) # ys) = process_row (xs @ ys)"
    using process_row_insert [of xs ys key] by blast
  from a b c show ?thesis by blast
qed

theorem process_row_total_witness:
  "normalized_row ([] @ short_row) (py_strip ''Title'') = None
   \<and> process_row ([] @ (''Title'', Some []) # short_row) = process_row ([] @ short_row)
   \<and> length (row_records short_row) = 2"
proof -
  have a: "normalized_row ([] @ short_row) (py_strip ''Title'') = None" by code_simp
  have b: "length (row_records short_row) = 2" by code_simp
  from a show ?thesis
    using process_row_total [of _ _ "[]" short_row "''Title''"] b by blast
qed




text \<open>
  Against claim C7 as written: \<open>time_to_minutes\<close> checks no range, so the start time
  \<open>25:99\<close> is emitted as 1599 minutes.
\<close>

theorem minutes_range_counterexample:
  "process_row (sample_row ''25:99'' ''M'' ''SCI'' ''Intro'') =
     Inr [[(''course'', JStr ''ALE 2170''), (''title'', JStr ''Intro''),
           (''section'', JStr ''001''), (''type'', JStr ''LEC''),
           (''building'', JStr ''SCI''), (''room'', JStr ''101''),
           (''day'', JStr ''M''), (''start_minutes'', JInt 1599),
           (''end_minutes'', JInt 590), (''max_enrollment'', JInt 30),
           (''current_enrollment'', JNull)]]
   \<and> \<not> list_all minutes_in_day (row_records (sample_row ''25:99'' ''M'' ''SCI'' ''Intro''))"
  by code_simp

text \<open>
  Claim C7, amended. In every emitted record \<open>start_minutes\<close> and \<open>end_minutes\<close> are
  integers, never \<open>null\<close>. They lie between 0 and 1439 when the start and end time of
  the row are zero-padded \<open>HH:MM\<close> strings with the hour below 24 and the minute
  below 60; no range is enforced otherwise.
\<close>

theorem minutes_not_null:
  "(\<exists>out. clean_course_data rows = Inr out
          \<and> (\<forall>r \<in> set out. \<exists>a b. map_of r ''start_minutes'' = Some (JInt a)
                                  \<and> map_of r ''end_minutes'' = Some (JInt b)))
   \<and> (\<forall>h m h' m'. h < 24 \<and> m < 60 \<and> h' < 24 \<and> m' < 60
         \<and> field row ''Start Time'' = hhmm h m \<and> field row ''End Time'' = hhmm h' m'
         \<longrightarrow> list_all minutes_in_day (row_records row))"
proof -
  have a: "\<exists>a b. map_of r ''start_minutes'' = Some (JInt a)
                \<and> map_of r ''end_minutes'' = Some (JInt b)"
    if "r \<in> set (concat (map row_records rows))" for r
    using that by (auto simp: row_records_eq map_of_row_record_minutes split: if_splits)
  have b: "list_all minutes_in_day (row_records row)"
    if "h < 24" "m < 60" "h' < 24" "m' < 60"
      "field row ''Start Time'' = hhmm h m" "field row ''End Time'' = hhmm h' m'"
    for h m h' m'
    using that
    by (auto simp: row_records_eq list_all_iff minutes_in_day_def map_of_row_record_minutes
          minutes_value_hhmm)
  from a b show ?thesis
    by (simp add: clean_course_data_def clean_rows_eq) blast
qed

theorem minutes_not_null_witness:
  "field (sample_row ''09:00'' ''M W F'' ''SCI'' ''Intro'') ''Start Time'' = hhmm 9 0
   \<and> field (sample_row ''09:00'' ''M W F'' ''SCI'' ''Intro'') ''End Time'' = hhmm 9 50
   \<and> list_all minutes_in_day (row_records (sample_row ''09:00'' ''M W F'' ''SCI'' ''Intro''))
   \<and> length (row_records (sample_row ''09:00'' ''M W F'' ''SCI'' ''Intro'')) = 3
   \<and> (\<exists>out. clean_course_data [sample_row ''25:99'' ''M'' ''SCI'' ''Intro''] = Inr out
            \<and> length out = 1
            \<and> list_all (\<lambda>r. \<exists>a b. map_of r ''start_minutes'' = Some (JInt a)
                                 \<and> map_of r ''end_minutes'' = Some (JInt b)) out)"
proof -
  let ?row = "sample_row ''09:00'' ''M W F'' ''SCI'' ''Intro''"
  let ?late = "sample_row ''25:99'' ''M'' ''SCI'' ''Intro''"
  have a: "field ?row ''Start Time'' = hhmm 9 0" "field ?row ''End Time'' = hhmm 9 50"
    by code_simp+
  have c: "length (row_records ?row) = 3"
    by code_simp
  have l: "length (row_records ?late) = 1"
    by code_simp
  have "(9::nat) < 24 \<and> (0::nat) < 60 \<and> (9::nat) < 24 \<and> (50::nat) < 60" by simp
  with a have m: "list_all minutes_in_day (row_records ?row)"
    using minutes_not_null [of _ ?row] by blast
  obtain out where o: "clean_course_data [?late] = Inr out"
    "\<forall>r \<in> set out. \<exists>a b. map_of r ''start_minutes'' = Some (JInt a)
                          \<and> map_of r ''end_minutes'' = Some (JInt b)"
    using minutes_not_null [of "[?late]"] by blast
  from o(1) l have "length out = 1"
    by (simp add: clean_course_data_def clean_rows_eq)
  with o have "\<exists>out. clean_course_data [?late] = Inr out
            \<and> length out = 1
            \<and> list_all (\<lambda>r. \<exists>a b. map_of r ''start_minutes'' = Some (JInt a)
                                 \<and> map_of r ''end_minutes'' = Some (JInt b)) out"
    by (auto simp: list_all_iff)
  with a c m show ?thesis by blast
qed

text \<open>
  Against claim C8 as written: the keys of an emitted record are written with
  underscores, \<open>start_minutes\<close>, \<open>end_minutes\<close>, \<open>max_enrollment\<close> and
  \<open>current_enrollment\<close>, not as section 3 of the specification spells them.
\<close>

theorem field_names_counterexample:
  "map (map fst) (row_records (sample_row ''09:00'' ''M'' ''SCI'' ''Intro'')) =
     [[''course'', ''title'', ''section'', ''type'', ''building'', ''room'', ''day'',
       ''start_minutes'', ''end_minutes'', ''max_enrollment'', ''current_enrollment'']]
   \<and> \<not> list_all (\<lambda>r. map fst r = spec_field_names)
         (row_records (sample_row ''09:00'' ''M'' ''SCI'' ''Intro''))"
  by code_simp

text \<open>
  Claim C8, amended. Every emitted record has exactly the keys \<open>course\<close>, \<open>title\<close>,
  \<open>section\<close>, \<open>type\<close>, \<open>building\<close>, \<open>room\<close>, \<open>day\<close>, \<open>start_minutes\<close>,
  \<open>end_minutes\<close>, \<open>max_enrollment\<close>, \<open>current_enrollment\<close>, in this order.
\<close>

theorem field_names:
  "\<exists>out. clean_course_data rows = Inr out
         \<and> (\<forall>r \<in> set out. map fst r =
              [''course'', ''title'', ''section'', ''type'', ''building'', ''room'', ''day'',
               ''start_minutes'', ''end_minutes'', ''max_enrollment'', ''current_enrollment''])"
proof -
  have "map fst r =
          [''course'', ''title'', ''section'', ''type'', ''building'', ''room'', ''day'',
           ''start_minutes'', ''end_minutes'', ''max_enrollment'', ''current_enrollment'']"
    if "r \<in> set (concat (map row_records rows))" for r
    using that by (auto simp: row_records_eq row_record_def make_record_def split: if_splits)
  then show ?thesis
    by (simp add: clean_course_data_def clean_rows_eq)
qed

theorem field_names_witness:
  "\<exists>out. clean_course_data [sample_row ''09:00'' ''M'' ''SCI'' ''Intro''] = Inr out
         \<and> length out = 1
         \<and> list_all (\<lambda>r. map fst r =
              [''course'', ''title'', ''section'', ''type'', ''building'', ''room'', ''day'',
               ''start_minutes'', ''end_minutes'', ''max_enrollment'', ''current_enrollment''])
             out"
proof -
  have l: "length (row_records (sample_row ''09:00'' ''M'' ''SCI'' ''Intro'')) = 1"
    by code_simp
  obtain out where o: "clean_course_data [sample_row ''09:00'' ''M'' ''SCI'' ''Intro''] = Inr out"
    "\<forall>r \<in> set out. map fst r =
              [''course'', ''title'', ''section'', ''type'', ''building'', ''room'', ''day'',
               ''start_minutes'', ''end_minutes'', ''max_enrollment'', ''current_enrollment'']"
    using field_names [of "[sample_row ''09:00'' ''M'' ''SCI'' ''Intro'']"] by blast
  from o(1) l have "length out = 1"
    by (simp add: clean_course_data_def clean_rows_eq)
  with o show ?thesis by (auto simp: list_all_iff)
qed




end
